theory Spec2Isabelle
  imports Complex_Main "HOL-Library.Sublist"
begin

section \<open>Numbers, errors and constants\<close>

text \<open>
  Python floats are modelled as exact reals: every arithmetic step of the source is the
  corresponding operation on \<^typ>\<open>real\<close>, and the only rounding that appears is the one
  the source asks for itself with \<open>round(x, n)\<close>.  Raised exceptions are values of the
  type \<open>error\<close>, the classes of shared/exceptions.py and the built-in \<open>TypeError\<close> and
  \<open>OverflowError\<close>; a function that may raise returns \<open>error + 'a\<close> with \<open>Inl\<close> the
  error.
\<close>

datatype error =
    ValidationError string
  | PositionSizingError string
  | RiskManagementError string
  | TypeError string
  | OverflowError

text \<open>shared/constants.py, class RiskManagement\<close>

definition MAX_POSITION_SIZE :: real where "MAX_POSITION_SIZE = 20 / 100"
definition MAX_PORTFOLIO_RISK :: real where "MAX_PORTFOLIO_RISK = 2 / 100"
definition MAX_DRAWDOWN :: real where "MAX_DRAWDOWN = 15 / 100"
definition STOP_LOSS_PERCENT :: real where "STOP_LOSS_PERCENT = 5 / 100"
definition TAKE_PROFIT_RATIO :: real where "TAKE_PROFIT_RATIO = 2"
definition MAX_CORRELATION :: real where "MAX_CORRELATION = 7 / 10"
definition HIGH_CORRELATION_THRESHOLD :: real where "HIGH_CORRELATION_THRESHOLD = 8 / 10"
definition CRITICAL_DRAWDOWN_THRESHOLD :: real where "CRITICAL_DRAWDOWN_THRESHOLD = 15 / 100"
definition WARNING_DRAWDOWN_THRESHOLD :: real where "WARNING_DRAWDOWN_THRESHOLD = 10 / 100"
definition ELEVATED_DRAWDOWN_THRESHOLD :: real where "ELEVATED_DRAWDOWN_THRESHOLD = 8 / 100"
definition DEFAULT_WIN_RATE :: real where "DEFAULT_WIN_RATE = 60 / 100"
definition MAX_KELLY_FRACTION :: real where "MAX_KELLY_FRACTION = 25 / 100"
definition SIGNIFICANT_DAILY_LOSS :: real where "SIGNIFICANT_DAILY_LOSS = 5000"
definition MODERATE_DAILY_LOSS :: real where "MODERATE_DAILY_LOSS = 1000"
definition VAR_BREACH_WARNING_THRESHOLD :: int where "VAR_BREACH_WARNING_THRESHOLD = 2"
definition DEMO_ACCOUNT_BALANCE :: real where "DEMO_ACCOUNT_BALANCE = 100000"

subsection \<open>Python's \<open>round(x, n)\<close>\<close>

text \<open>Rounding to the nearest integer, ties to the even neighbour.\<close>

definition round_half_even :: "real \<Rightarrow> int" where
  "round_half_even x =
     (let f = \<lfloor>x\<rfloor>; d = x - of_int f
      in if d < 1 / 2 then f
         else if 1 / 2 < d then f + 1
         else if even f then f else f + 1)"

definition py_round :: "real \<Rightarrow> nat \<Rightarrow> real" where
  "py_round x n = of_int (round_half_even (x * 10 ^ n)) / 10 ^ n"

subsection \<open>shared/exceptions.py: validate_numeric_range\<close>

definition validate_numeric_range ::
  "real \<Rightarrow> real option \<Rightarrow> real option \<Rightarrow> string \<Rightarrow> error + unit" where
  "validate_numeric_range v min_value max_value field_name =
     (if (case min_value of None \<Rightarrow> False | Some m \<Rightarrow> v < m)
        then Inl (ValidationError field_name)
      else if (case max_value of None \<Rightarrow> False | Some m \<Rightarrow> m < v)
        then Inl (ValidationError field_name)
      else Inr ())"

text \<open>Sequencing of a step that may raise with the rest of the body.\<close>

definition and_then :: "error + 'a \<Rightarrow> ('a \<Rightarrow> error + 'b) \<Rightarrow> error + 'b" where
  "and_then r k = (case r of Inl e \<Rightarrow> Inl e | Inr v \<Rightarrow> k v)"

subsection \<open>shared/exceptions.py: the constructors of the risk errors\<close>

text \<open>
  A constructor is given its message and the names of the keyword arguments of the call.
  It returns the exception object it builds (\<open>Inr\<close>) or the exception that building it
  raises (\<open>Inl\<close>).  \<open>RiskManagementError.__init__\<close> calls the base constructor with
  \<open>error_code\<close>, \<open>category\<close> and \<open>severity\<close> of its own and with its keyword arguments
  again; a name given twice is a \<open>TypeError\<close> of the call.
\<close>

definition RiskManagementError_init :: "string \<Rightarrow> string list \<Rightarrow> error + error" where
  "RiskManagementError_init message kwargs =
     (if ''error_code'' \<in> set kwargs then Inl (TypeError ''error_code'')
      else if ''category'' \<in> set kwargs then Inl (TypeError ''category'')
      else if ''severity'' \<in> set kwargs then Inl (TypeError ''severity'')
      else Inr (RiskManagementError message))"

text \<open>
  \<open>PositionSizingError.__init__\<close>: \<open>kwargs.setdefault("error_code", ...)\<close>, then the
  constructor of the parent class with these keyword arguments.
\<close>

definition PositionSizingError_init :: "string \<Rightarrow> string list \<Rightarrow> error + error" where
  "PositionSizingError_init message kwargs =
     (let kwargs = (if ''error_code'' \<in> set kwargs then kwargs else kwargs @ [''error_code''])
      in case RiskManagementError_init message kwargs of
           Inl e \<Rightarrow> Inl e
         | Inr _ \<Rightarrow> Inr (PositionSizingError message))"

text \<open>\<open>raise C(...)\<close>: what is raised is the object built, or what building it raised.\<close>

definition raise_new :: "error + error \<Rightarrow> error + 'a" where
  "raise_new built = (case built of Inl e \<Rightarrow> Inl e | Inr e \<Rightarrow> Inl e)"

section \<open>RiskCalculator.calculate_position_size\<close>

record PositionSize =
  ps_symbol :: string
  ps_quantity :: real
  ps_notional_value :: real
  ps_risk_amount :: real
  ps_confidence :: real

definition valid_methods :: "string list" where
  "valid_methods = [''fixed_percent'', ''kelly'', ''volatility'']"

text \<open>
  The \<open>if/elif\<close> chain over the method: the quantity and the confidence before the cap,
  or the error raised inside the Kelly branch.
\<close>

definition size_by_method ::
  "string \<Rightarrow> real \<Rightarrow> real \<Rightarrow> real \<Rightarrow> error + (real \<times> real)" where
  "size_by_method method account_balance risk_amount price_risk =
     (if method = ''fixed_percent'' then Inr (risk_amount / price_risk, 8 / 10)
      else if method = ''kelly'' then
        (let win_rate = DEFAULT_WIN_RATE;
             avg_win = price_risk * 2;
             avg_loss = price_risk
         in if avg_win \<le> 0
            then raise_new (PositionSizingError_init ''avg_win'' [''details''])
            else
              (let kelly_fraction = (win_rate * avg_win - (1 - win_rate) * avg_loss) / avg_win;
                   kelly_fraction = max 0 (min kelly_fraction MAX_KELLY_FRACTION);
                   kelly_risk_amount = account_balance * kelly_fraction
               in Inr (kelly_risk_amount / price_risk, 9 / 10)))
      else if method = ''volatility'' then
        (let volatility_factor = 8 / 10;
             adjusted_risk = risk_amount * (1 / volatility_factor)
         in Inr (adjusted_risk / price_risk, 7 / 10))
      else Inr (risk_amount / price_risk, 6 / 10))"

text \<open>The cap on the notional value and the construction of the result.\<close>

definition cap_position ::
  "real \<Rightarrow> real \<Rightarrow> real \<Rightarrow> real \<times> real \<Rightarrow> PositionSize" where
  "cap_position account_balance risk_amount entry_price qc =
     (let quantity = fst qc; confidence = snd qc;
          notional_value = quantity * entry_price;
          max_position_value = account_balance * MAX_POSITION_SIZE
      in if max_position_value < notional_value
         then \<lparr> ps_symbol = [], ps_quantity = py_round (max_position_value / entry_price) 8,
                ps_notional_value = py_round max_position_value 2,
                ps_risk_amount = py_round risk_amount 2,
                ps_confidence = confidence * (8 / 10) \<rparr>
         else \<lparr> ps_symbol = [], ps_quantity = py_round quantity 8,
                ps_notional_value = py_round notional_value 2,
                ps_risk_amount = py_round risk_amount 2,
                ps_confidence = confidence \<rparr>)"

text \<open>
  The handlers of the \<open>try\<close> block: a \<open>PositionSizingError\<close> or \<open>ValidationError\<close> is
  raised again as it is; for any other exception the handler builds a
  \<open>PositionSizingError\<close> with \<open>details\<close> and \<open>cause\<close> and raises it.
\<close>

definition position_sizing_handler :: "error + 'a \<Rightarrow> error + 'a" where
  "position_sizing_handler body =
     (case body of
        Inr v \<Rightarrow> Inr v
      | Inl (PositionSizingError msg) \<Rightarrow> Inl (PositionSizingError msg)
      | Inl (ValidationError field) \<Rightarrow> Inl (ValidationError field)
      | Inl _ \<Rightarrow> raise_new (PositionSizingError_init ''unexpected error''
                                [''details'', ''cause'']))"

text \<open>The four range checks and the check of the method come before the \<open>try\<close>.\<close>

definition calculate_position_size ::
  "real \<Rightarrow> real \<Rightarrow> real \<Rightarrow> real \<Rightarrow> string \<Rightarrow> error + PositionSize" where
  "calculate_position_size account_balance risk_per_trade entry_price stop_loss_price method =
     and_then (validate_numeric_range account_balance (Some (1 / 100)) None ''account_balance'')
     (\<lambda>_. and_then (validate_numeric_range risk_per_trade (Some (1 / 1000)) (Some (5 / 10))
                       ''risk_per_trade'')
     (\<lambda>_. and_then (validate_numeric_range entry_price (Some (1 / 100)) None ''entry_price'')
     (\<lambda>_. and_then (validate_numeric_range stop_loss_price (Some (1 / 100)) None
                       ''stop_loss_price'')
     (\<lambda>_. if method \<notin> set valid_methods then Inl (ValidationError ''method'')
          else
            (let risk_amount = account_balance * risk_per_trade;
                 price_risk = \<bar>entry_price - stop_loss_price\<bar>
             in position_sizing_handler
                  (if price_risk \<le> 0
                   then raise_new (PositionSizingError_init ''price_risk'' [''details''])
                   else and_then (size_by_method method account_balance risk_amount price_risk)
                          (\<lambda>qc. Inr (cap_position account_balance risk_amount entry_price
                                       qc))))))))"

text \<open>The inputs on which none of the checks of the function raises.\<close>

definition ranges_ok :: "real \<Rightarrow> real \<Rightarrow> real \<Rightarrow> real \<Rightarrow> bool" where
  "ranges_ok account_balance risk_per_trade entry_price stop_loss_price \<longleftrightarrow>
     1 / 100 \<le> account_balance \<and> 1 / 1000 \<le> risk_per_trade \<and> risk_per_trade \<le> 5 / 10 \<and>
     1 / 100 \<le> entry_price \<and> 1 / 100 \<le> stop_loss_price"

section \<open>RiskCalculator.calculate_max_drawdown\<close>

text \<open>\<open>np.cumsum\<close>: the running sums of a list.\<close>

fun cumsum_from :: "real \<Rightarrow> real list \<Rightarrow> real list" where
  "cumsum_from acc [] = []"
| "cumsum_from acc (x # xs) = (acc + x) # cumsum_from (acc + x) xs"

definition cumsum :: "real list \<Rightarrow> real list" where
  "cumsum xs = cumsum_from 0 xs"

text \<open>\<open>np.maximum.accumulate\<close>: the running maxima of a list.\<close>

fun running_max_from :: "real \<Rightarrow> real list \<Rightarrow> real list" where
  "running_max_from m [] = []"
| "running_max_from m (x # xs) = max m x # running_max_from (max m x) xs"

definition maximum_accumulate :: "real list \<Rightarrow> real list" where
  "maximum_accumulate xs = (case xs of [] \<Rightarrow> [] | x # rest \<Rightarrow> x # running_max_from x rest)"

text \<open>\<open>np.min\<close> raises on an empty array; the enclosing handler turns that into a
  \<open>RiskManagementError\<close>.\<close>

definition np_min :: "real list \<Rightarrow> error + real" where
  "np_min xs = (case xs of [] \<Rightarrow> Inl (RiskManagementError ''max_drawdown'')
                | x # rest \<Rightarrow> Inr (fold min rest x))"

definition calculate_max_drawdown :: "real list \<Rightarrow> error + real" where
  "calculate_max_drawdown pnl_history =
     (if pnl_history = [] \<or> length pnl_history < 2 then Inr 0
      else
        (let cumulative_pnl = cumsum pnl_history;
             running_max = maximum_accumulate cumulative_pnl;
             drawdowns = map2 (\<lambda>c m. (c - m) / max m 1) cumulative_pnl running_max
         in and_then (np_min drawdowns) (\<lambda>lowest. Inr \<bar>lowest\<bar>)))"

section \<open>RiskCalculator.assess_correlation_risk\<close>

record PortfolioPosition =
  pp_symbol :: string
  pp_quantity :: real
  pp_entry_price :: real
  pp_current_price :: real
  pp_market_value :: real
  pp_unrealized_pnl :: real
  pp_unrealized_pnl_percent :: real
  pp_weight :: real

text \<open>Python's \<open>sub in s\<close> and \<open>s.endswith(suf)\<close> on strings.\<close>

primrec contains :: "string \<Rightarrow> string \<Rightarrow> bool" where
  "contains sub [] = (sub = [])"
| "contains sub (c # cs) = (prefix sub (c # cs) \<or> contains sub cs)"

definition endswith :: "string \<Rightarrow> string \<Rightarrow> bool" where
  "endswith s suf = prefix (rev suf) (rev s)"

text \<open>The body of the inner loop: the correlation assumed for one pair of symbols.\<close>

definition pair_correlation :: "string \<Rightarrow> string \<Rightarrow> real" where
  "pair_correlation symbol1 symbol2 =
     (if contains ''BTC'' symbol1 \<and> contains ''BTC'' symbol2 then 95 / 100
      else if (contains ''BTC'' symbol1 \<or> contains ''ETH'' symbol1) \<and>
              (contains ''BTC'' symbol2 \<or> contains ''ETH'' symbol2) then 85 / 100
      else if endswith symbol1 ''USDT'' \<and> endswith symbol2 ''USDT'' then 70 / 100
      else 60 / 100)"

text \<open>The two nested loops over \<open>i < j\<close>, in the order in which they append.\<close>

fun pair_correlations :: "PortfolioPosition list \<Rightarrow> real list" where
  "pair_correlations [] = []"
| "pair_correlations (p # ps) =
     map (\<lambda>q. pair_correlation (pp_symbol p) (pp_symbol q)) ps @ pair_correlations ps"

definition np_mean :: "real list \<Rightarrow> real" where
  "np_mean xs = sum_list xs / real (length xs)"

definition np_max :: "real list \<Rightarrow> real" where
  "np_max xs = fold max (tl xs) (hd xs)"

record CorrelationRisk =
  avg_correlation :: real
  max_correlation :: real
  risk_level :: string

definition assess_correlation_risk :: "PortfolioPosition list \<Rightarrow> CorrelationRisk" where
  "assess_correlation_risk positions =
     (if length positions < 2
      then \<lparr> avg_correlation = 0, max_correlation = 0, risk_level = ''low'' \<rparr>
      else
        (let correlations = pair_correlations positions;
             avg = (if correlations \<noteq> [] then np_mean correlations else 0);
             mx = (if correlations \<noteq> [] then np_max correlations else 0);
             lvl = (if 8 / 10 < mx then ''high''
                    else if 6 / 10 < mx then ''medium'' else ''low'')
         in \<lparr> avg_correlation = avg, max_correlation = mx, risk_level = lvl \<rparr>))"

section \<open>The tool optimize_kelly_criterion\<close>







section \<open>RiskCalculator.generate_risk_alerts\<close>

record RiskMetrics =
  rm_var_1d :: real
  rm_max_drawdown :: real
  rm_sharpe_ratio :: "real option"
  rm_portfolio_beta :: "real option"
  rm_correlation_risk :: string

record RiskParameters =
  rp_max_position_size :: real
  rp_max_portfolio_risk :: real
  rp_max_drawdown :: real
  rp_max_correlation :: real
  rp_stop_loss_percent :: real
  rp_take_profit_ratio :: real

text \<open>The defaults of the dataclass, which is what \<open>RiskParameters()\<close> builds.\<close>

definition default_risk_parameters :: RiskParameters where
  "default_risk_parameters =
     \<lparr> rp_max_position_size = MAX_POSITION_SIZE, rp_max_portfolio_risk = MAX_PORTFOLIO_RISK,
       rp_max_drawdown = MAX_DRAWDOWN, rp_max_correlation = MAX_CORRELATION,
       rp_stop_loss_percent = STOP_LOSS_PERCENT, rp_take_profit_ratio = TAKE_PROFIT_RATIO \<rparr>"

text \<open>An alert; the message text, which only formats the numbers below, is left out.\<close>

record RiskAlert =
  ra_level :: string
  ra_metric :: string
  ra_current_value :: real
  ra_threshold :: real

definition generate_risk_alerts :: "RiskMetrics \<Rightarrow> RiskParameters \<Rightarrow> RiskAlert list" where
  "generate_risk_alerts portfolio_metrics risk_params =
     (if rp_max_portfolio_risk risk_params * DEMO_ACCOUNT_BALANCE < rm_var_1d portfolio_metrics
      then [\<lparr> ra_level = ''warning'', ra_metric = ''var_1d'',
              ra_current_value = rm_var_1d portfolio_metrics,
              ra_threshold = rp_max_portfolio_risk risk_params * DEMO_ACCOUNT_BALANCE \<rparr>]
      else []) @
     (if rp_max_drawdown risk_params < rm_max_drawdown portfolio_metrics
      then [\<lparr> ra_level = ''critical'', ra_metric = ''max_drawdown'',
              ra_current_value = rm_max_drawdown portfolio_metrics,
              ra_threshold = rp_max_drawdown risk_params \<rparr>]
      else []) @
     (if rm_correlation_risk portfolio_metrics = ''high''
      then [\<lparr> ra_level = ''warning'', ra_metric = ''correlation_risk'',
              ra_current_value = HIGH_CORRELATION_THRESHOLD,
              ra_threshold = rp_max_correlation risk_params \<rparr>]
      else []) @
     (case rm_sharpe_ratio portfolio_metrics of
        None \<Rightarrow> []
      | Some sr \<Rightarrow>
          if sr < 5 / 10
          then [\<lparr> ra_level = ''warning'', ra_metric = ''sharpe_ratio'',
                  ra_current_value = sr, ra_threshold = 5 / 10 \<rparr>]
          else [])"

text \<open>
  The part of the tool \<open>assess_portfolio_risk\<close> that builds the metrics and asks for the
  alerts.  The VaR, the drawdown, the Sharpe ratio and the correlation level it has
  computed are parameters here; \<open>account_balance\<close> is the tool's own argument.
\<close>

definition assess_portfolio_risk_alerts ::
  "real \<Rightarrow> real \<Rightarrow> real \<Rightarrow> real option \<Rightarrow> string \<Rightarrow> RiskAlert list" where
  "assess_portfolio_risk_alerts account_balance var_1d max_drawdown sharpe_ratio level =
     (let total_value = account_balance;
          portfolio_metrics = \<lparr> rm_var_1d = var_1d, rm_max_drawdown = max_drawdown,
                                rm_sharpe_ratio = sharpe_ratio, rm_portfolio_beta = None,
                                rm_correlation_risk = level \<rparr>;
          risk_params = default_risk_parameters
      in generate_risk_alerts portfolio_metrics risk_params)"

section \<open>The tool generate_risk_alerts\<close>

record RiskReport =
  rr_risk_level :: string
  rr_risk_score :: int
  rr_alerts :: "(string \<times> string) list"
  rr_recommendations :: "string list"

text \<open>The score before the final \<open>min(100, risk_score)\<close>.\<close>

definition raw_risk_score :: "real \<Rightarrow> real \<Rightarrow> int \<Rightarrow> string \<Rightarrow> int" where
  "raw_risk_score current_drawdown daily_pnl var_breaches correlation_level =
     (let risk_score = 0;
          risk_score = (if STOP_LOSS_PERCENT < current_drawdown
                        then risk_score + 30 else risk_score);
          risk_score = (if daily_pnl < - MODERATE_DAILY_LOSS
                        then risk_score + 20 else risk_score);
          risk_score = (if 0 < var_breaches then risk_score + 15 else risk_score);
          risk_score = (if correlation_level = ''high'' then risk_score + 20 else risk_score)
      in risk_score)"

text \<open>Alerts are kept as (level, metric); their texts only format the inputs.\<close>

definition generate_risk_alerts_tool :: "real \<Rightarrow> real \<Rightarrow> int \<Rightarrow> string \<Rightarrow> RiskReport" where
  "generate_risk_alerts_tool current_drawdown daily_pnl var_breaches correlation_level =
     (let alerts =
            (if CRITICAL_DRAWDOWN_THRESHOLD < current_drawdown then [(''critical'', ''drawdown'')]
             else if WARNING_DRAWDOWN_THRESHOLD < current_drawdown
               then [(''warning'', ''drawdown'')]
             else []) @
            (if daily_pnl < - SIGNIFICANT_DAILY_LOSS then [(''warning'', ''daily_pnl'')] else []) @
            (if VAR_BREACH_WARNING_THRESHOLD < var_breaches
             then [(''warning'', ''var_breaches'')] else []) @
            (if correlation_level = ''high'' then [(''warning'', ''correlation'')] else []);
          recommendations =
            (if ELEVATED_DRAWDOWN_THRESHOLD < current_drawdown
             then [''Reduce position sizes by 25-50%'', ''Tighten stop-loss levels''] else []) @
            (if correlation_level = ''high''
             then [''Add uncorrelated assets to portfolio'',
                   ''Consider market-neutral strategies''] else []) @
            (if 1 < var_breaches
             then [''Recalibrate risk model parameters'',
                   ''Review historical volatility assumptions''] else []);
          risk_score = raw_risk_score current_drawdown daily_pnl var_breaches correlation_level;
          lvl = (if risk_score < 25 then ''low''
                 else if risk_score < 60 then ''medium'' else ''high'')
      in \<lparr> rr_risk_level = lvl, rr_risk_score = min 100 risk_score,
           rr_alerts = alerts, rr_recommendations = filter (\<lambda>r. r \<noteq> []) recommendations \<rparr>)"

text \<open>The four conditions that add to the score, as a list of truth values.\<close>

definition breaches :: "real \<Rightarrow> real \<Rightarrow> int \<Rightarrow> string \<Rightarrow> bool list" where
  "breaches current_drawdown daily_pnl var_breaches correlation_level =
     [STOP_LOSS_PERCENT < current_drawdown, daily_pnl < - MODERATE_DAILY_LOSS,
      0 < var_breaches, correlation_level = ''high'']"

section \<open>The AI tool generate_trading_signal\<close>

text \<open>A call that leaves the process: it raises or it returns.\<close>

datatype 'a outcome = Raised | Returned 'a

text \<open>What the tool reads of the synthesis it asks the model for.\<close>

record AIAnalysis =
  an_success :: bool
  an_confidence :: real
  an_recommendation :: "string option"
  an_target_price :: "real option"
  an_reasoning :: string

text \<open>The dictionaries of the answer; a key that may be absent is an option.\<close>

record TradingSignal =
  sg_action :: "string option"
  sg_confidence :: "real option"
  sg_original_confidence :: "real option"
  sg_target_price :: "real option"

record AIResult =
  ar_success :: bool
  ar_signal :: "TradingSignal option"
  ar_reasoning :: "string option"

text \<open>The branch on the risk tolerance: the threshold and the adjusted confidence.\<close>

definition tolerance_adjustment :: "string \<Rightarrow> real \<Rightarrow> real \<times> real" where
  "tolerance_adjustment risk_tolerance base_confidence =
     (if risk_tolerance = ''low'' then (8 / 10, base_confidence * (8 / 10))
      else if risk_tolerance = ''high'' then (5 / 10, base_confidence * (12 / 10))
      else (7 / 10, base_confidence))"

definition generate_trading_signal :: "AIAnalysis outcome \<Rightarrow> string \<Rightarrow> AIResult" where
  "generate_trading_signal synthesis risk_tolerance =
     (case synthesis of
        Raised \<Rightarrow> \<lparr> ar_success = False, ar_signal = None, ar_reasoning = None \<rparr>
      | Returned analysis \<Rightarrow>
          if \<not> an_success analysis
          then \<lparr> ar_success = False, ar_signal = None, ar_reasoning = None \<rparr>
          else
            (let base_confidence = an_confidence analysis;
                 min_confidence = fst (tolerance_adjustment risk_tolerance base_confidence);
                 adjusted_confidence = snd (tolerance_adjustment risk_tolerance base_confidence);
                 recommendation = (case an_recommendation analysis of
                                     None \<Rightarrow> ''hold'' | Some r \<Rightarrow> r);
                 recommendation = (if adjusted_confidence < min_confidence
                                   then ''hold'' else recommendation);
                 reasoning = (if adjusted_confidence < min_confidence
                              then ''Signal confidence below threshold''
                              else an_reasoning analysis)
             in \<lparr> ar_success = True,
                  ar_signal = Some \<lparr> sg_action = Some recommendation,
                                     sg_confidence = Some (min 1 adjusted_confidence),
                                     sg_original_confidence = Some base_confidence,
                                     sg_target_price = an_target_price analysis \<rparr>,
                  ar_reasoning = Some reasoning \<rparr>))"

section \<open>CryptoTrader: the trading decision\<close>

text \<open>shared/constants.py, class Trading\<close>

definition DEFAULT_MIN_CONFIDENCE :: real where "DEFAULT_MIN_CONFIDENCE = 7 / 10"
definition RULE_BASED_BUY_THRESHOLD :: real where "RULE_BASED_BUY_THRESHOLD = 3 / 10"
definition RULE_BASED_SELL_THRESHOLD :: real where "RULE_BASED_SELL_THRESHOLD = - (3 / 10)"
definition CONFIDENCE_BOOST :: real where "CONFIDENCE_BOOST = 3 / 10"
definition MAX_RULE_CONFIDENCE :: real where "MAX_RULE_CONFIDENCE = 8 / 10"
definition TECHNICAL_SIGNAL_WEIGHT :: real where "TECHNICAL_SIGNAL_WEIGHT = 6 / 10"
definition NEWS_SENTIMENT_WEIGHT :: real where "NEWS_SENTIMENT_WEIGHT = 5 / 10"
definition SOCIAL_SENTIMENT_WEIGHT :: real where "SOCIAL_SENTIMENT_WEIGHT = 4 / 10"

record TechnicalResult =
  tr_success :: bool
  tr_overall_signal :: "string option"

record SentimentResult =
  sr_success :: bool
  sr_overall_sentiment :: "real option"

record MarketAnalysis =
  ma_technical :: "TechnicalResult option"
  ma_news :: "SentimentResult option"
  ma_social :: "SentimentResult option"
  ma_market_price :: "real option"

record PositionResult =
  pr_success :: bool
  pr_quantity :: "real option"
  pr_risk_amount :: "real option"

record TradeDetails =
  td_action :: string
  td_confidence :: real
  td_entry_price :: "real option"
  td_quantity :: "real option"
  td_stop_loss :: "real option"
  td_take_profit :: "real option"
  td_risk_amount :: "real option"

text \<open>
  The dictionary a decision returns: a trade, \<open>should_trade: False\<close> with a reason, or
  \<open>should_trade: False\<close> with the error the handler caught.
\<close>

datatype Decision = Trade TradeDetails | NoTrade string | DecisionError

fun should_trade :: "Decision \<Rightarrow> bool" where
  "should_trade (Trade _) = True"
| "should_trade (NoTrade _) = False"
| "should_trade DecisionError = False"

text \<open>The scores the fallback collects, in the order of the source.\<close>

definition rule_scores :: "MarketAnalysis \<Rightarrow> real list" where
  "rule_scores analysis =
     (case ma_technical analysis of
        None \<Rightarrow> []
      | Some technical \<Rightarrow>
          if tr_success technical
          then (let tech_signal = (case tr_overall_signal technical of
                                     None \<Rightarrow> ''neutral'' | Some sg \<Rightarrow> sg)
                in if tech_signal = ''bullish'' then [TECHNICAL_SIGNAL_WEIGHT]
                   else if tech_signal = ''bearish'' then [- TECHNICAL_SIGNAL_WEIGHT]
                   else [])
          else []) @
     (case ma_news analysis of
        None \<Rightarrow> []
      | Some news \<Rightarrow>
          if sr_success news
          then [(case sr_overall_sentiment news of None \<Rightarrow> 0 | Some v \<Rightarrow> v)
                  * NEWS_SENTIMENT_WEIGHT]
          else []) @
     (case ma_social analysis of
        None \<Rightarrow> []
      | Some social \<Rightarrow>
          if sr_success social
          then [(case sr_overall_sentiment social of None \<Rightarrow> 0 | Some v \<Rightarrow> v)
                  * SOCIAL_SENTIMENT_WEIGHT]
          else [])"

text \<open>
  \<open>_rule_based_decision\<close>.  The messages it logs are returned with the decision, so that
  a caller's log shows whether this function ran.
\<close>

definition rule_based_decision :: "real \<Rightarrow> MarketAnalysis \<Rightarrow> string list \<times> Decision" where
  "rule_based_decision min_confidence analysis =
     (let scores = rule_scores analysis
      in (if scores = [] then ([''Using rule-based trading decision''],
                               NoTrade ''No valid analysis data'')
          else
            (let overall_score = sum_list scores / real (length scores);
                 confidence = min MAX_RULE_CONFIDENCE (\<bar>overall_score\<bar> + CONFIDENCE_BOOST);
                 order = (\<lambda>action. Trade \<lparr> td_action = action, td_confidence = confidence,
                            td_entry_price = None, td_quantity = None, td_stop_loss = None,
                            td_take_profit = None, td_risk_amount = None \<rparr>)
             in ([''Using rule-based trading decision''],
                 if RULE_BASED_BUY_THRESHOLD < overall_score \<and> min_confidence \<le> confidence
                 then order ''buy''
                 else if overall_score < RULE_BASED_SELL_THRESHOLD \<and> min_confidence \<le> confidence
                 then order ''sell''
                 else NoTrade ''No clear signal''))))"

text \<open>
  \<open>make_trading_decision\<close>.  The connected servers, the trader's configuration
  (\<open>min_confidence\<close>, \<open>risk_per_trade\<close>, \<open>stop_loss_percent\<close>), what the call to the AI tool
  does and what the call to the position sizing tool does are parameters.  An exception
  anywhere in the body, also a missing key, ends in the handler's answer.
\<close>

definition make_trading_decision ::
  "string list \<Rightarrow> AIResult outcome \<Rightarrow> real \<Rightarrow> real \<Rightarrow> real \<Rightarrow>
   (real \<Rightarrow> real \<Rightarrow> real \<Rightarrow> real \<Rightarrow> PositionResult outcome) \<Rightarrow> MarketAnalysis \<Rightarrow>
   string list \<times> Decision" where
  "make_trading_decision connections ai_call min_confidence risk_per_trade stop_loss_percent
     risk_call analysis =
     (let started = [''Making trading decision...''];
          below = [''Signal confidence below threshold''];
          fallback = (started @ fst (rule_based_decision min_confidence analysis),
                      snd (rule_based_decision min_confidence analysis))
      in if ''ai'' \<in> set connections then
           (case ai_call of
              Raised \<Rightarrow> (started, DecisionError)
            | Returned ai_result \<Rightarrow>
                if ar_success ai_result then
                  (case ar_signal ai_result of
                     None \<Rightarrow> (started, DecisionError)
                   | Some signal \<Rightarrow>
                       (let action = (case sg_action signal of None \<Rightarrow> ''hold'' | Some a \<Rightarrow> a);
                            confidence = (case sg_confidence signal of None \<Rightarrow> 0 | Some c \<Rightarrow> c)
                        in if min_confidence \<le> confidence \<and> action \<in> set [''buy'', ''sell'']
                           then
                             (let account_balance = 10000;
                                  entry_price = (case ma_market_price analysis of
                                                   None \<Rightarrow> 0 | Some price \<Rightarrow> price);
                                  stop_loss_price = entry_price * (1 - stop_loss_percent)
                              in case risk_call account_balance risk_per_trade entry_price
                                        stop_loss_price of
                                   Raised \<Rightarrow> (started, DecisionError)
                                 | Returned position_result \<Rightarrow>
                                     if pr_success position_result then
                                       (case (pr_quantity position_result,
                                              pr_risk_amount position_result,
                                              ar_reasoning ai_result) of
                                          (Some q, Some ra, Some _) \<Rightarrow>
                                            (started,
                                             Trade \<lparr> td_action = action,
                                                     td_confidence = confidence,
                                                     td_entry_price = Some entry_price,
                                                     td_quantity = Some q,
                                                     td_stop_loss = Some stop_loss_price,
                                                     td_take_profit = sg_target_price signal,
                                                     td_risk_amount = Some ra \<rparr>)
                                        | _ \<Rightarrow> (started, DecisionError))
                                     else (started @ below,
                                           NoTrade ''Confidence below threshold''))
                           else (started @ below, NoTrade ''Confidence below threshold'')))
                else fallback)
         else fallback)"

section \<open>Helper lemmas\<close>

lemma round_half_even_near: "\<bar>of_int (round_half_even x) - x\<bar> \<le> 1 / 2"
  unfolding round_half_even_def Let_def by (auto simp: abs_le_iff)

lemma py_round_near: "\<bar>py_round x n - x\<bar> \<le> 1 / (2 * 10 ^ n)"
proof -
  have p: "(0::real) < 10 ^ n" by simp
  have "\<bar>py_round x n - x\<bar> = \<bar>of_int (round_half_even (x * 10 ^ n)) - x * 10 ^ n\<bar> / 10 ^ n"
    unfolding py_round_def using p by (simp add: field_simps abs_divide)
  also have "\<dots> \<le> (1 / 2) / 10 ^ n"
    by (rule divide_right_mono [OF round_half_even_near]) simp
  finally show ?thesis by simp
qed

lemma position_sizing_handler_Inr: "position_sizing_handler (Inr v) = Inr v"
  unfolding position_sizing_handler_def by simp

lemma PositionSizingError_init_fails:
  "''error_code'' \<notin> set kwargs \<Longrightarrow>
     PositionSizingError_init message kwargs = Inl (TypeError ''error_code'')"
  unfolding PositionSizingError_init_def RiskManagementError_init_def Let_def by simp

lemma position_sizing_handler_TypeError:
  "position_sizing_handler (Inl (TypeError a)) = Inl (TypeError ''error_code'')"
  unfolding position_sizing_handler_def raise_new_def
  by (simp add: PositionSizingError_init_fails)

lemma ranges_ok_validate:
  assumes "ranges_ok b r e s"
  shows "calculate_position_size b r e s m =
           (if m \<notin> set valid_methods then Inl (ValidationError ''method'')
            else if \<bar>e - s\<bar> \<le> 0 then Inl (TypeError ''error_code'')
            else position_sizing_handler
                   (and_then (size_by_method m b (b * r) \<bar>e - s\<bar>)
                      (\<lambda>qc. Inr (cap_position b (b * r) e qc))))"
proof -
  have "position_sizing_handler (raise_new (PositionSizingError_init ''price_risk'' [''details'']))
          = (Inl (TypeError ''error_code'') :: error + PositionSize)"
    unfolding raise_new_def
    by (simp add: PositionSizingError_init_fails position_sizing_handler_TypeError)
  then show ?thesis
    using assms
    unfolding calculate_position_size_def ranges_ok_def validate_numeric_range_def and_then_def
    by (simp add: Let_def)
qed

lemma py_round_int: "py_round (of_int k) n = of_int k"
proof -
  have "of_int k * (10::real) ^ n = of_int (k * 10 ^ n)" by simp
  then have "round_half_even (of_int k * 10 ^ n) = k * 10 ^ n"
    unfolding round_half_even_def Let_def by (simp del: of_int_mult of_int_power)
  then show ?thesis unfolding py_round_def by simp
qed

lemma py_round_upper: "py_round x 2 \<le> x + 1 / 200"
proof -
  have "py_round x 2 - x \<le> \<bar>py_round x 2 - x\<bar>" by simp
  also have "\<dots> \<le> 1 / (2 * 10 ^ 2)" by (rule py_round_near)
  finally show ?thesis by simp
qed

lemma size_by_method_valid:
  assumes "m \<in> set valid_methods" and "0 < pr"
  shows "size_by_method m b ra pr =
           Inr (if m = ''fixed_percent'' then (ra / pr, 8 / 10)
                else if m = ''kelly'' then (b * (25 / 100) / pr, 9 / 10)
                else (ra * (1 / (8 / 10)) / pr, 7 / 10))"
  using assms
  unfolding size_by_method_def valid_methods_def DEFAULT_WIN_RATE_def MAX_KELLY_FRACTION_def
  by (auto simp: Let_def field_simps)

lemma size_by_method_conf:
  assumes "m \<in> set valid_methods" and "0 < pr" and "size_by_method m b ra pr = Inr qc"
  shows "0 < snd qc"
  using assms by (auto simp: size_by_method_valid split: if_splits)

lemma cap_position_notional:
  "ps_notional_value (cap_position b ra e qc) \<le> b * MAX_POSITION_SIZE + 1 / 200"
proof (cases "b * MAX_POSITION_SIZE < fst qc * e")
  case True
  then show ?thesis
    unfolding cap_position_def Let_def using py_round_upper [of "b * MAX_POSITION_SIZE"] by simp
next
  case False
  then have "py_round (fst qc * e) 2 \<le> b * MAX_POSITION_SIZE + 1 / 200"
    using py_round_upper [of "fst qc * e"] by linarith
  with False show ?thesis unfolding cap_position_def Let_def by simp
qed

lemma cap_position_capped:
  assumes "b * MAX_POSITION_SIZE < fst qc * e"
  shows "cap_position b ra e qc =
           \<lparr> ps_symbol = [], ps_quantity = py_round (b * MAX_POSITION_SIZE / e) 8,
             ps_notional_value = py_round (b * MAX_POSITION_SIZE) 2,
             ps_risk_amount = py_round ra 2, ps_confidence = snd qc * (8 / 10) \<rparr>"
  using assms unfolding cap_position_def Let_def by simp

lemma cap_position_uncapped:
  assumes "\<not> b * MAX_POSITION_SIZE < fst qc * e"
  shows "cap_position b ra e qc =
           \<lparr> ps_symbol = [], ps_quantity = py_round (fst qc) 8,
             ps_notional_value = py_round (fst qc * e) 2,
             ps_risk_amount = py_round ra 2, ps_confidence = snd qc \<rparr>"
  using assms unfolding cap_position_def Let_def by simp

lemma returns_only_if:
  assumes "calculate_position_size b r e s m = Inr ps"
  shows "ranges_ok b r e s \<and> m \<in> set valid_methods \<and> e \<noteq> s"
proof -
  have ok: "ranges_ok b r e s"
  proof (rule ccontr)
    assume "\<not> ranges_ok b r e s"
    then have "\<exists>err. calculate_position_size b r e s m = Inl err"
      unfolding calculate_position_size_def ranges_ok_def validate_numeric_range_def
        and_then_def
      by (auto simp: not_le)
    with assms show False by auto
  qed
  from assms show ?thesis
    unfolding ranges_ok_validate [OF ok] using ok by (auto split: if_splits)
qed

lemma returns_value:
  assumes "ranges_ok b r e s" "m \<in> set valid_methods" "e \<noteq> s"
  shows "\<exists>qc. size_by_method m b (b * r) \<bar>e - s\<bar> = Inr qc \<and>
           calculate_position_size b r e s m = Inr (cap_position b (b * r) e qc)"
proof -
  have pr: "0 < \<bar>e - s\<bar>" using assms(3) by simp
  obtain qc where qc: "size_by_method m b (b * r) \<bar>e - s\<bar> = Inr qc"
    using size_by_method_valid [OF assms(2) pr] by blast
  have "calculate_position_size b r e s m = Inr (cap_position b (b * r) e qc)"
    using assms pr qc by (simp add: ranges_ok_validate position_sizing_handler_Inr and_then_def)
  with qc show ?thesis by blast
qed

lemma fold_min_in: "fold min xs (x::real) \<in> set (x # xs)"
proof (induction xs arbitrary: x)
  case Nil
  then show ?case by simp
next
  case (Cons y ys)
  have m: "min y x = x \<or> min y x = y" by (simp add: min_def)
  have "fold min ys (min y x) = min y x \<or> fold min ys (min y x) \<in> set ys"
    using Cons.IH [of "min y x"] by simp
  then show ?case using m by auto
qed

lemma np_min_in:
  assumes "xs \<noteq> []"
  shows "\<exists>v. np_min xs = Inr v \<and> v \<in> set xs"
  using assms fold_min_in unfolding np_min_def by (cases xs) auto

lemma cumsum_from_length: "length (cumsum_from acc xs) = length xs"
  by (induction xs arbitrary: acc) simp_all

lemma running_max_from_length: "length (running_max_from m xs) = length xs"
  by (induction xs arbitrary: m) simp_all

lemma maximum_accumulate_length: "length (maximum_accumulate xs) = length xs"
  unfolding maximum_accumulate_def by (cases xs) (simp_all add: running_max_from_length)

lemma running_max_from_ge:
  "(c, m) \<in> set (zip xs (running_max_from m0 xs)) \<Longrightarrow> c \<le> m"
proof (induction xs arbitrary: m0)
  case Nil
  then show ?case by simp
next
  case (Cons x xs)
  then show ?case by auto
qed

lemma maximum_accumulate_ge:
  "(c, m) \<in> set (zip xs (maximum_accumulate xs)) \<Longrightarrow> c \<le> m"
  unfolding maximum_accumulate_def using running_max_from_ge by (cases xs) auto

lemma drawdown_step_bounds:
  fixes c m :: real
  assumes "c \<le> m"
  shows "(c - m) / max m 1 \<le> 0" and "0 \<le> c \<Longrightarrow> - 1 \<le> (c - m) / max m 1"
proof -
  have pos: "0 < max m 1" by simp
  show "(c - m) / max m 1 \<le> 0" using assms pos by (simp add: divide_le_0_iff)
  assume "0 \<le> c"
  then have "- max m 1 \<le> c - m" by (simp add: max_def)
  then show "- 1 \<le> (c - m) / max m 1" using pos by (simp add: pos_le_divide_eq)
qed

lemma drawdown_value:
  assumes "2 \<le> length pnl"
  shows "\<exists>c m. (c, m) \<in> set (zip (cumsum pnl) (maximum_accumulate (cumsum pnl))) \<and>
           calculate_max_drawdown pnl = Inr \<bar>(c - m) / max m 1\<bar>"
proof -
  let ?cs = "cumsum pnl"
  let ?dd = "map2 (\<lambda>c m. (c - m) / max m 1) ?cs (maximum_accumulate ?cs)"
  have len: "length ?dd = length pnl"
    by (simp add: cumsum_def cumsum_from_length maximum_accumulate_length)
  then have "?dd \<noteq> []" using assms by auto
  from np_min_in [OF this] obtain v where v: "np_min ?dd = Inr v" "v \<in> set ?dd" by blast
  from v(2) obtain c m where cm: "(c, m) \<in> set (zip ?cs (maximum_accumulate ?cs))"
    "v = (c - m) / max m 1" by auto
  have "calculate_max_drawdown pnl = Inr \<bar>v\<bar>"
    using assms v(1) unfolding calculate_max_drawdown_def Let_def and_then_def by auto
  with cm show ?thesis by blast
qed

lemma np_max_Max: "xs \<noteq> [] \<Longrightarrow> np_max xs = Max (set xs)"
proof (cases xs)
  case Nil
  assume "xs \<noteq> []" with Nil show ?thesis by simp
next
  case (Cons a rest)
  then show ?thesis unfolding np_max_def using Max.set_eq_fold [of a rest] by simp
qed

lemma pair_correlations_set:
  "set (pair_correlations ps) =
     {pair_correlation (pp_symbol (ps ! i)) (pp_symbol (ps ! j)) | i j. i < j \<and> j < length ps}"
proof (induction ps)
  case Nil
  then show ?case by simp
next
  case (Cons p ps)
  let ?f = "\<lambda>xs i j. pair_correlation (pp_symbol (xs ! i)) (pp_symbol (xs ! j))"
  have "{?f (p # ps) i j | i j. i < j \<and> j < length (p # ps)} =
          {?f (p # ps) 0 j | j. 0 < j \<and> j < length (p # ps)} \<union>
          {?f (p # ps) (Suc i) (Suc j) | i j. i < j \<and> j < length ps}" (is "?L = ?A \<union> ?B")
  proof (intro set_eqI iffI)
    fix x assume "x \<in> ?L"
    then obtain i j where ij: "x = ?f (p # ps) i j" "i < j" "j < length (p # ps)" by blast
    show "x \<in> ?A \<union> ?B"
    proof (cases i)
      case 0
      with ij show ?thesis by blast
    next
      case (Suc i')
      with ij obtain j' where "j = Suc j'" by (cases j) auto
      with Suc ij have "x = ?f (p # ps) (Suc i') (Suc j')" "i' < j'" "j' < length ps" by auto
      then show ?thesis by blast
    qed
  next
    fix x assume "x \<in> ?A \<union> ?B"
    then show "x \<in> ?L"
    proof
      assume "x \<in> ?A" then show ?thesis by blast
    next
      assume "x \<in> ?B"
      then obtain i j where "x = ?f (p # ps) (Suc i) (Suc j)" "i < j" "j < length ps" by blast
      then have "x = ?f (p # ps) (Suc i) (Suc j) \<and> Suc i < Suc j \<and> Suc j < length (p # ps)"
        by simp
      then show ?thesis by blast
    qed
  qed
  moreover have "?A = (\<lambda>q. pair_correlation (pp_symbol p) (pp_symbol q)) ` set ps"
  proof (intro set_eqI iffI)
    fix x assume "x \<in> ?A"
    then obtain j where j: "x = ?f (p # ps) 0 j" "0 < j" "j < length (p # ps)" by blast
    then obtain j' where "j = Suc j'" by (cases j) auto
    with j have "x = pair_correlation (pp_symbol p) (pp_symbol (ps ! j'))" "j' < length ps"
      by auto
    then show "x \<in> (\<lambda>q. pair_correlation (pp_symbol p) (pp_symbol q)) ` set ps" by auto
  next
    fix x assume "x \<in> (\<lambda>q. pair_correlation (pp_symbol p) (pp_symbol q)) ` set ps"
    then obtain q where q: "q \<in> set ps" "x = pair_correlation (pp_symbol p) (pp_symbol q)"
      by blast
    then obtain k where "k < length ps" "ps ! k = q" by (auto simp: in_set_conv_nth)
    with q have "x = ?f (p # ps) 0 (Suc k) \<and> 0 < Suc k \<and> Suc k < length (p # ps)" by simp
    then show "x \<in> ?A" by blast
  qed
  moreover have "?B = set (pair_correlations ps)" unfolding Cons.IH by simp
  ultimately show ?case by simp
qed

lemma pair_correlations_nonempty: "2 \<le> length ps \<Longrightarrow> pair_correlations ps \<noteq> []"
proof (cases ps)
  case Nil
  assume "2 \<le> length ps" with Nil show ?thesis by simp
next
  case (Cons p qs)
  assume "2 \<le> length ps"
  with Cons have "qs \<noteq> []" by auto
  with Cons show ?thesis by simp
qed

lemma two_positions:
  "assess_correlation_risk [p, q] =
     \<lparr> avg_correlation = pair_correlation (pp_symbol p) (pp_symbol q),
       max_correlation = pair_correlation (pp_symbol p) (pp_symbol q),
       risk_level = (if 8 / 10 < pair_correlation (pp_symbol p) (pp_symbol q) then ''high''
                     else if 6 / 10 < pair_correlation (pp_symbol p) (pp_symbol q)
                     then ''medium'' else ''low'') \<rparr>"
  unfolding assess_correlation_risk_def Let_def np_mean_def np_max_def by simp

lemma rule_based_log:
  "fst (rule_based_decision mc a) = [''Using rule-based trading decision'']"
  unfolding rule_based_decision_def Let_def by simp

lemma ai_low_confidence:
  assumes "''ai'' \<in> set conns" and "ar_success r" and "ar_signal r = Some sg"
    and "(case sg_confidence sg of None \<Rightarrow> 0 | Some c \<Rightarrow> c) < mc \<or>
         (case sg_action sg of None \<Rightarrow> ''hold'' | Some a \<Rightarrow> a) \<notin> set [''buy'', ''sell'']"
  shows "make_trading_decision conns (Returned r) mc rpt slp risk_call a =
           ([''Making trading decision...'', ''Signal confidence below threshold''],
            NoTrade ''Confidence below threshold'')"
  using assms unfolding make_trading_decision_def Let_def by auto

lemma signal_below_tolerance:
  assumes "an_success an"
    and "snd (tolerance_adjustment tol (an_confidence an))
           < fst (tolerance_adjustment tol (an_confidence an))"
  shows "ar_success (generate_trading_signal (Returned an) tol) \<and>
         (\<exists>sg. ar_signal (generate_trading_signal (Returned an) tol) = Some sg \<and>
               sg_action sg = Some ''hold'')"
  using assms unfolding generate_trading_signal_def Let_def by simp

lemma fallback_only_without_ai:
  assumes "''Using rule-based trading decision''
             \<in> set (fst (make_trading_decision conns call mc rpt slp risk_call a))"
  shows "''ai'' \<notin> set conns \<or> (\<exists>r. call = Returned r \<and> \<not> ar_success r)"
  using assms unfolding make_trading_decision_def Let_def
  by (auto split: outcome.splits option.splits if_splits prod.splits)






section \<open>Position sizing: the claims\<close>

text \<open>
  Claim C1.  Whenever \<open>calculate_position_size\<close> returns (and it does return on every
  input that passes its range checks, names a valid method and has \<open>entry \<noteq> stop\<close>), the
  returned notional value is at most \<open>account_balance \<times> MAX_POSITION_SIZE\<close> plus the half
  cent that rounding to two decimals may add; and when the uncapped notional \<open>q \<times> entry\<close>
  exceeds the cap, the returned quantity is the cap divided by the entry price (rounded to
  eight decimals), the notional is the cap, and the confidence is the method's confidence
  \<open>c\<close> times 0.8, which is strictly less than \<open>c\<close>.
\<close>

theorem position_cap_invariant:
  "(ranges_ok b r e s \<and> m \<in> set valid_methods \<and> e \<noteq> s \<longrightarrow>
      (\<exists>ps. calculate_position_size b r e s m = Inr ps)) \<and>
   (\<forall>ps. calculate_position_size b r e s m = Inr ps \<longrightarrow>
      (\<exists>q c. size_by_method m b (b * r) \<bar>e - s\<bar> = Inr (q, c) \<and>
         ps_notional_value ps \<le> b * MAX_POSITION_SIZE + 1 / 200 \<and>
         (b * MAX_POSITION_SIZE < q * e \<longrightarrow>
            ps_quantity ps = py_round (b * MAX_POSITION_SIZE / e) 8 \<and>
            ps_notional_value ps = py_round (b * MAX_POSITION_SIZE) 2 \<and>
            ps_confidence ps = c * (8 / 10) \<and> ps_confidence ps < c)))"
proof (intro conjI allI impI)
  assume "ranges_ok b r e s \<and> m \<in> set valid_methods \<and> e \<noteq> s"
  then show "\<exists>ps. calculate_position_size b r e s m = Inr ps"
    using returns_value [of b r e s m] by blast
next
  fix ps assume ret: "calculate_position_size b r e s m = Inr ps"
  from returns_only_if [OF ret]
  have ok: "ranges_ok b r e s" "m \<in> set valid_methods" "e \<noteq> s" by simp_all
  from returns_value [OF ok] ret obtain qc where
    qc: "size_by_method m b (b * r) \<bar>e - s\<bar> = Inr qc" and ps: "ps = cap_position b (b * r) e qc"
    by auto
  have c: "0 < snd qc" using size_by_method_conf [OF ok(2) _ qc] ok(3) by simp
  have "size_by_method m b (b * r) \<bar>e - s\<bar> = Inr (fst qc, snd qc)" using qc by simp
  moreover have "ps_notional_value ps \<le> b * MAX_POSITION_SIZE + 1 / 200"
    unfolding ps by (rule cap_position_notional)
  moreover have "b * MAX_POSITION_SIZE < fst qc * e \<longrightarrow>
            ps_quantity ps = py_round (b * MAX_POSITION_SIZE / e) 8 \<and>
            ps_notional_value ps = py_round (b * MAX_POSITION_SIZE) 2 \<and>
            ps_confidence ps = snd qc * (8 / 10) \<and> ps_confidence ps < snd qc"
    using c unfolding ps by (simp add: cap_position_capped)
  ultimately show "\<exists>q c. size_by_method m b (b * r) \<bar>e - s\<bar> = Inr (q, c) \<and>
         ps_notional_value ps \<le> b * MAX_POSITION_SIZE + 1 / 200 \<and>
         (b * MAX_POSITION_SIZE < q * e \<longrightarrow>
            ps_quantity ps = py_round (b * MAX_POSITION_SIZE / e) 8 \<and>
            ps_notional_value ps = py_round (b * MAX_POSITION_SIZE) 2 \<and>
            ps_confidence ps = c * (8 / 10) \<and> ps_confidence ps < c)"
    by blast
qed

theorem position_cap_invariant_witness:
  "ranges_ok 10000 (2 / 100) 100 99 \<and> ''fixed_percent'' \<in> set valid_methods \<and>
   calculate_position_size 10000 (2 / 100) 100 99 ''fixed_percent'' =
     Inr \<lparr> ps_symbol = [], ps_quantity = 20, ps_notional_value = 2000,
           ps_risk_amount = 200, ps_confidence = 64 / 100 \<rparr> \<and>
   size_by_method ''fixed_percent'' 10000 (10000 * (2 / 100)) \<bar>100 - 99\<bar> = Inr (200, 8 / 10) \<and>
   10000 * MAX_POSITION_SIZE < 200 * 100 \<and>
   (2000::real) \<le> 10000 * MAX_POSITION_SIZE + 1 / 200 \<and> (64 / 100 :: real) < 8 / 10"
proof -
  have ok: "ranges_ok 10000 (2 / 100) 100 99" by (simp add: ranges_ok_def)
  have m: "''fixed_percent'' \<in> set valid_methods" by (simp add: valid_methods_def)
  have sz: "size_by_method ''fixed_percent'' 10000 (10000 * (2 / 100)) \<bar>100 - 99\<bar>
              = Inr (200, 8 / 10)"
    by (simp add: size_by_method_def)
  have ret: "calculate_position_size 10000 (2 / 100) 100 99 ''fixed_percent'' =
     Inr \<lparr> ps_symbol = [], ps_quantity = 20, ps_notional_value = 2000,
           ps_risk_amount = 200, ps_confidence = 64 / 100 \<rparr>"
    using ok m sz py_round_int [of 20 8] py_round_int [of 2000 2] py_round_int [of 200 2]
    by (simp add: ranges_ok_validate position_sizing_handler_Inr and_then_def cap_position_def MAX_POSITION_SIZE_def Let_def)
  from position_cap_invariant [of 10000 "2 / 100" 100 99 "''fixed_percent''"] ok m ret sz
  show ?thesis by (simp add: MAX_POSITION_SIZE_def)
qed

text \<open>
  Claim C2, as amended.  The volatility method divides the risk amount by the factor 0.8
  (it multiplies by \<open>1 / 0.8\<close>): the uncapped quantity is
  \<open>account_balance \<times> risk_per_trade / 0.8 / price_risk\<close>, and when the cap does not
  trigger the function returns that quantity, rounded to eight decimals, with confidence 0.7.
\<close>

theorem volatility_divides_by_factor:
  assumes "ranges_ok b r e s" and "e \<noteq> s"
  shows "size_by_method ''volatility'' b (b * r) \<bar>e - s\<bar>
           = Inr (b * r / (8 / 10) / \<bar>e - s\<bar>, 7 / 10) \<and>
         (\<not> b * MAX_POSITION_SIZE < b * r / (8 / 10) / \<bar>e - s\<bar> * e \<longrightarrow>
            (\<exists>ps. calculate_position_size b r e s ''volatility'' = Inr ps \<and>
                  ps_quantity ps = py_round (b * r / (8 / 10) / \<bar>e - s\<bar>) 8 \<and>
                  ps_confidence ps = 7 / 10))"
proof -
  have sz: "size_by_method ''volatility'' b (b * r) \<bar>e - s\<bar>
           = Inr (b * r / (8 / 10) / \<bar>e - s\<bar>, 7 / 10)"
    by (simp add: size_by_method_def)
  have ret: "calculate_position_size b r e s ''volatility'' =
           Inr (cap_position b (b * r) e (b * r / (8 / 10) / \<bar>e - s\<bar>, 7 / 10))"
    using assms sz by (simp add: ranges_ok_validate position_sizing_handler_Inr valid_methods_def and_then_def)
  show ?thesis using sz ret by (simp add: cap_position_uncapped)
qed

theorem volatility_divides_by_factor_witness:
  "ranges_ok 10000 (2 / 100) 100 50 \<and>
   size_by_method ''volatility'' 10000 (10000 * (2 / 100)) \<bar>100 - 50\<bar> = Inr (5, 7 / 10) \<and>
   \<not> 10000 * MAX_POSITION_SIZE < (5::real) * 100 \<and>
   (\<exists>ps. calculate_position_size 10000 (2 / 100) 100 50 ''volatility'' = Inr ps \<and>
         ps_quantity ps = py_round 5 8 \<and> ps_confidence ps = 7 / 10)"
proof -
  have ok: "ranges_ok 10000 (2 / 100) 100 50" by (simp add: ranges_ok_def)
  have ne: "(100::real) \<noteq> 50" by simp
  from volatility_divides_by_factor [OF ok ne] ok
  show ?thesis by (simp add: MAX_POSITION_SIZE_def)
qed

text \<open>
  The claim as stated, with the risk amount multiplied by 0.8, fails: for a balance of
  10000, 2% risk, entry 100 and stop 50 the quantity is 5, not 3.2.
\<close>

theorem volatility_factor_counterexample:
  "calculate_position_size 10000 (2 / 100) 100 50 ''volatility'' =
     Inr \<lparr> ps_symbol = [], ps_quantity = 5, ps_notional_value = 500,
           ps_risk_amount = 200, ps_confidence = 7 / 10 \<rparr> \<and>
   size_by_method ''volatility'' 10000 (10000 * (2 / 100)) \<bar>100 - 50\<bar> = Inr (5, 7 / 10) \<and>
   (5::real) \<noteq> 8 / 10 * 10000 * (2 / 100) / \<bar>100 - 50\<bar>"
  using py_round_int [of 5 8] py_round_int [of 500 2] py_round_int [of 200 2]
  by (simp add: ranges_ok_validate position_sizing_handler_Inr ranges_ok_def valid_methods_def size_by_method_def and_then_def
      cap_position_def MAX_POSITION_SIZE_def Let_def)

text \<open>
  Claim C6: the code at the input the claim is about.  When the range checks pass, the
  method is one of the three valid ones and the entry price equals the stop loss price,
  the price risk check is reached before any sizing method and raises; but what leaves the
  function is a \<open>TypeError\<close>, not the \<open>PositionSizingError\<close> that the docstring and the
  \<open>raise\<close> statement name.  Building a \<open>PositionSizingError\<close> hands \<open>error_code\<close> to the
  base constructor twice, in the \<open>raise\<close> statement and again in the handler that wraps
  unexpected exceptions.  No result is returned.
\<close>

theorem zero_price_risk_raises_type_error:
  assumes "ranges_ok b r e s" and "m \<in> set valid_methods" and "e = s"
  shows "calculate_position_size b r e s m = Inl (TypeError ''error_code'') \<and>
         PositionSizingError_init ''price_risk'' [''details'']
           = Inl (TypeError ''error_code'')"
  using assms by (simp add: ranges_ok_validate PositionSizingError_init_fails)

theorem zero_price_risk_raises_type_error_witness:
  "ranges_ok 1000 (2 / 100) 100 100 \<and> ''fixed_percent'' \<in> set valid_methods \<and>
   calculate_position_size 1000 (2 / 100) 100 100 ''fixed_percent''
     = Inl (TypeError ''error_code'')"
proof -
  have ok: "ranges_ok 1000 (2 / 100) 100 100" by (simp add: ranges_ok_def)
  have m: "''fixed_percent'' \<in> set valid_methods" by (simp add: valid_methods_def)
  from zero_price_risk_raises_type_error [OF ok m refl] ok m
  show ?thesis by simp
qed

text \<open>
  Claim C7.  On inputs that pass the checks and on which the cap does not trigger, the
  fixed-percent method returns the quantity \<open>risk_amount / price_risk\<close> rounded to eight
  decimals, so that \<open>quantity \<times> price_risk\<close> differs from
  \<open>account_balance \<times> risk_per_trade\<close> by at most \<open>price_risk / (2 \<times> 10\<^sup>8)\<close>, and the
  confidence is 0.8.
\<close>

theorem fixed_percent_risk_identity:
  assumes "ranges_ok b r e s" and "e \<noteq> s"
    and "\<not> b * MAX_POSITION_SIZE < b * r / \<bar>e - s\<bar> * e"
  shows "\<exists>ps. calculate_position_size b r e s ''fixed_percent'' = Inr ps \<and>
              ps_quantity ps = py_round (b * r / \<bar>e - s\<bar>) 8 \<and>
              \<bar>ps_quantity ps * \<bar>e - s\<bar> - b * r\<bar> \<le> \<bar>e - s\<bar> / (2 * 10 ^ 8) \<and>
              ps_confidence ps = 8 / 10"
proof -
  let ?pr = "\<bar>e - s\<bar>" and ?q = "b * r / \<bar>e - s\<bar>"
  have pr: "0 < ?pr" using assms(2) by simp
  have sz: "size_by_method ''fixed_percent'' b (b * r) ?pr = Inr (?q, 8 / 10)"
    by (simp add: size_by_method_def)
  have ret: "calculate_position_size b r e s ''fixed_percent'' =
               Inr (cap_position b (b * r) e (?q, 8 / 10))"
    using assms(1,2) sz by (simp add: ranges_ok_validate position_sizing_handler_Inr valid_methods_def and_then_def)
  have "\<bar>py_round ?q 8 * ?pr - b * r\<bar> = \<bar>py_round ?q 8 - ?q\<bar> * ?pr"
  proof -
    have "py_round ?q 8 * ?pr - b * r = (py_round ?q 8 - ?q) * ?pr"
      using pr by (simp add: field_simps)
    then show ?thesis using pr by (simp add: abs_mult)
  qed
  also have "\<dots> \<le> 1 / (2 * 10 ^ 8) * ?pr"
    by (rule mult_right_mono [OF py_round_near]) simp
  finally have near: "\<bar>py_round ?q 8 * ?pr - b * r\<bar> \<le> ?pr / (2 * 10 ^ 8)" by simp
  show ?thesis using ret near assms(3) by (simp add: cap_position_uncapped)
qed

theorem fixed_percent_risk_identity_witness:
  "ranges_ok 10000 (2 / 100) 100 50 \<and> (100::real) \<noteq> 50 \<and>
   \<not> 10000 * MAX_POSITION_SIZE < 10000 * (2 / 100) / \<bar>100 - 50\<bar> * (100::real) \<and>
   (\<exists>ps. calculate_position_size 10000 (2 / 100) 100 50 ''fixed_percent'' = Inr ps \<and>
         ps_quantity ps = py_round 4 8 \<and>
         \<bar>ps_quantity ps * 50 - 200\<bar> \<le> 50 / (2 * 10 ^ 8) \<and> ps_confidence ps = 8 / 10)"
proof -
  have ok: "ranges_ok 10000 (2 / 100) 100 50" by (simp add: ranges_ok_def)
  have ne: "(100::real) \<noteq> 50" by simp
  have un: "\<not> 10000 * MAX_POSITION_SIZE < 10000 * (2 / 100) / \<bar>100 - 50\<bar> * (100::real)"
    by (simp add: MAX_POSITION_SIZE_def)
  from fixed_percent_risk_identity [OF ok ne un] ok un
  show ?thesis by simp
qed

section \<open>Maximum drawdown: the claim\<close>

text \<open>
  Claim C3, as amended.  \<open>calculate_max_drawdown\<close> returns on every history; the value is
  the absolute value of the least \<open>(cumulative - running_max) / max(running_max, 1)\<close> and
  so is never negative; a history of fewer than two points gives 0; and the value is at
  most 1 whenever the cumulative P&L never goes below zero.
\<close>

theorem max_drawdown_range:
  "(length pnl < 2 \<longrightarrow> calculate_max_drawdown pnl = Inr 0) \<and>
   (\<exists>d. calculate_max_drawdown pnl = Inr d \<and> 0 \<le> d \<and>
        ((\<forall>c \<in> set (cumsum pnl). 0 \<le> c) \<longrightarrow> d \<le> 1))"
proof (cases "length pnl < 2")
  case True
  then show ?thesis unfolding calculate_max_drawdown_def by simp
next
  case False
  then have "2 \<le> length pnl" by simp
  from drawdown_value [OF this] obtain c m where
    cm: "(c, m) \<in> set (zip (cumsum pnl) (maximum_accumulate (cumsum pnl)))" and
    r: "calculate_max_drawdown pnl = Inr \<bar>(c - m) / max m 1\<bar>" by blast
  have le: "c \<le> m" using cm by (rule maximum_accumulate_ge)
  have "(\<forall>c \<in> set (cumsum pnl). 0 \<le> c) \<longrightarrow> \<bar>(c - m) / max m 1\<bar> \<le> 1"
  proof
    assume "\<forall>c \<in> set (cumsum pnl). 0 \<le> c"
    moreover have "c \<in> set (cumsum pnl)" using cm by (rule set_zip_leftD)
    ultimately have c0: "0 \<le> c" by blast
    show "\<bar>(c - m) / max m 1\<bar> \<le> 1"
      using drawdown_step_bounds(1) [OF le] drawdown_step_bounds(2) [OF le c0] by linarith
  qed
  with r False show ?thesis by simp
qed

theorem max_drawdown_range_witness:
  "cumsum [10, - 4, 2] = [10, 6, 8] \<and> calculate_max_drawdown [10, - 4, 2] = Inr (4 / 10) \<and>
   (4 / 10 :: real) \<le> 1 \<and> calculate_max_drawdown [7] = Inr 0"
proof -
  have cs: "cumsum [10, - 4, 2] = [10, 6, 8]" unfolding cumsum_def by simp
  have v: "calculate_max_drawdown [10, - 4, 2] = Inr (4 / 10)"
    unfolding calculate_max_drawdown_def cumsum_def maximum_accumulate_def np_min_def
      and_then_def Let_def by simp
  from max_drawdown_range [of "[7]"] max_drawdown_range [of "[10, - 4, 2]"] cs v
  show ?thesis by simp
qed

text \<open>
  Without that condition the value is not bounded by 1: a gain of 1 followed by a loss of
  101 gives a drawdown of 101, and the strictly decreasing history of two losses of 5
  gives 5.
\<close>

theorem max_drawdown_exceeds_one_counterexample:
  "calculate_max_drawdown [1, - 101] = Inr 101 \<and> \<not> (101::real) \<le> 1 \<and>
   calculate_max_drawdown [- 5, - 5] = Inr 5"
  unfolding calculate_max_drawdown_def cumsum_def maximum_accumulate_def np_min_def and_then_def
    Let_def
  by simp

section \<open>Kelly optimiser: the claim\<close>




section \<open>Risk alerts: the claims\<close>

text \<open>
  Claim C9.  The alerts of \<open>RiskCalculator.generate_risk_alerts\<close> hold a VaR alert exactly
  when \<open>var_1d\<close> exceeds \<open>max_portfolio_risk \<times> 100000\<close>, the demo account balance, and
  that product is the threshold the alert reports.  The tool \<open>assess_portfolio_risk\<close>
  never hands its \<open>account_balance\<close> to this function, so two calls that differ only in
  the balance get the same alerts; with the default parameters the VaR alert is raised
  exactly above 2000.
\<close>

theorem var_alert_demo_balance:
  "filter (\<lambda>a. ra_metric a = ''var_1d'') (generate_risk_alerts m p) =
     (if rp_max_portfolio_risk p * 100000 < rm_var_1d m
      then [\<lparr> ra_level = ''warning'', ra_metric = ''var_1d'', ra_current_value = rm_var_1d m,
              ra_threshold = rp_max_portfolio_risk p * 100000 \<rparr>]
      else []) \<and>
   assess_portfolio_risk_alerts b1 v dd sr lvl = assess_portfolio_risk_alerts b2 v dd sr lvl \<and>
   filter (\<lambda>a. ra_metric a = ''var_1d'') (assess_portfolio_risk_alerts b1 v dd sr lvl) =
     (if 2000 < v
      then [\<lparr> ra_level = ''warning'', ra_metric = ''var_1d'', ra_current_value = v,
              ra_threshold = 2000 \<rparr>]
      else [])"
  unfolding generate_risk_alerts_def assess_portfolio_risk_alerts_def default_risk_parameters_def
    DEMO_ACCOUNT_BALANCE_def MAX_PORTFOLIO_RISK_def Let_def
  by (simp split: option.splits)

text \<open>
  Claim C10.  The risk score of the tool \<open>generate_risk_alerts\<close> is the sum of those of
  the increments 30, 20, 15 and 20 whose condition holds; it lies between 0 and 85, the
  final \<open>min(100, score)\<close> never changes it, it is never 100, the level is high exactly
  from 60 on, and a high level needs at least three of the four conditions.
\<close>

theorem risk_score_bounds:
  "rr_risk_score (generate_risk_alerts_tool d p v c) = raw_risk_score d p v c \<and>
   raw_risk_score d p v c =
     (if STOP_LOSS_PERCENT < d then 30 else 0) + (if p < - MODERATE_DAILY_LOSS then 20 else 0) +
     (if 0 < v then 15 else 0) + (if c = ''high'' then 20 else 0) \<and>
   0 \<le> rr_risk_score (generate_risk_alerts_tool d p v c) \<and>
   rr_risk_score (generate_risk_alerts_tool d p v c) \<le> 85 \<and>
   rr_risk_score (generate_risk_alerts_tool d p v c) \<noteq> 100 \<and>
   (rr_risk_level (generate_risk_alerts_tool d p v c) = ''high'' \<longleftrightarrow>
      60 \<le> raw_risk_score d p v c) \<and>
   (rr_risk_level (generate_risk_alerts_tool d p v c) = ''high'' \<longrightarrow>
      3 \<le> length (filter id (breaches d p v c)))"
  unfolding generate_risk_alerts_tool_def raw_risk_score_def breaches_def Let_def
  by (simp split: if_splits)

theorem risk_score_bounds_witness:
  "rr_risk_level (generate_risk_alerts_tool (1 / 10) (- 2000) 1 ''low'') = ''high'' \<and>
   rr_risk_score (generate_risk_alerts_tool (1 / 10) (- 2000) 1 ''low'') = 65 \<and>
   length (filter id (breaches (1 / 10) (- 2000) 1 ''low'')) = 3"
proof -
  have lvl: "rr_risk_level (generate_risk_alerts_tool (1 / 10) (- 2000) 1 ''low'') = ''high''"
    unfolding generate_risk_alerts_tool_def raw_risk_score_def Let_def
      STOP_LOSS_PERCENT_def MODERATE_DAILY_LOSS_def by simp
  have raw: "raw_risk_score (1 / 10) (- 2000) 1 ''low'' = 65"
    unfolding raw_risk_score_def Let_def STOP_LOSS_PERCENT_def MODERATE_DAILY_LOSS_def by simp
  have "length (filter id (breaches (1 / 10) (- 2000) 1 ''low'')) \<le> 3"
    unfolding breaches_def by simp
  with risk_score_bounds [of "1 / 10" "- 2000" 1 "''low''"] lvl raw
  show ?thesis by simp
qed

section \<open>Correlation risk: the claim\<close>

text \<open>
  Claim C8.  With fewer than two positions \<open>assess_correlation_risk\<close> answers low with
  both correlations 0.  With two or more, the maximum it reports is the greatest of the
  pairwise values over all index pairs \<open>i < j\<close>, the average is their mean, and the level
  is high above 0.8, medium above 0.6 and low otherwise.  The pairwise value comes from
  the symbols alone: 0.95 if both contain BTC, else 0.85 if each contains BTC or ETH, else
  0.70 if both end in USDT, else 0.60.  Two positions whose symbols both contain BTC give
  the maximum 0.95 and the level high.
\<close>

theorem correlation_risk_heuristic:
  "(length ps < 2 \<longrightarrow>
      assess_correlation_risk ps =
        \<lparr> avg_correlation = 0, max_correlation = 0, risk_level = ''low'' \<rparr>) \<and>
   (2 \<le> length ps \<longrightarrow>
      max_correlation (assess_correlation_risk ps) =
        Max {pair_correlation (pp_symbol (ps ! i)) (pp_symbol (ps ! j)) | i j.
               i < j \<and> j < length ps} \<and>
      avg_correlation (assess_correlation_risk ps) =
        sum_list (pair_correlations ps) / real (length (pair_correlations ps)) \<and>
      risk_level (assess_correlation_risk ps) =
        (if 8 / 10 < max_correlation (assess_correlation_risk ps) then ''high''
         else if 6 / 10 < max_correlation (assess_correlation_risk ps) then ''medium''
         else ''low'')) \<and>
   pair_correlation s1 s2 =
     (if contains ''BTC'' s1 \<and> contains ''BTC'' s2 then 95 / 100
      else if (contains ''BTC'' s1 \<or> contains ''ETH'' s1) \<and>
              (contains ''BTC'' s2 \<or> contains ''ETH'' s2) then 85 / 100
      else if endswith s1 ''USDT'' \<and> endswith s2 ''USDT'' then 70 / 100
      else 60 / 100) \<and>
   (contains ''BTC'' (pp_symbol p) \<and> contains ''BTC'' (pp_symbol q) \<longrightarrow>
      max_correlation (assess_correlation_risk [p, q]) = 95 / 100 \<and>
      risk_level (assess_correlation_risk [p, q]) = ''high'')"
proof (intro conjI impI)
  assume "length ps < 2"
  then show "assess_correlation_risk ps =
        \<lparr> avg_correlation = 0, max_correlation = 0, risk_level = ''low'' \<rparr>"
    unfolding assess_correlation_risk_def by simp
next
  assume two: "2 \<le> length ps"
  then have ne: "pair_correlations ps \<noteq> []" by (rule pair_correlations_nonempty)
  from two ne show "max_correlation (assess_correlation_risk ps) =
        Max {pair_correlation (pp_symbol (ps ! i)) (pp_symbol (ps ! j)) | i j.
               i < j \<and> j < length ps}"
    unfolding assess_correlation_risk_def Let_def
    by (simp add: np_max_Max pair_correlations_set)
  from two ne show "avg_correlation (assess_correlation_risk ps) =
        sum_list (pair_correlations ps) / real (length (pair_correlations ps))"
    unfolding assess_correlation_risk_def Let_def by (simp add: np_mean_def)
  from two show "risk_level (assess_correlation_risk ps) =
        (if 8 / 10 < max_correlation (assess_correlation_risk ps) then ''high''
         else if 6 / 10 < max_correlation (assess_correlation_risk ps) then ''medium''
         else ''low'')"
    unfolding assess_correlation_risk_def Let_def by simp
next
  show "pair_correlation s1 s2 =
     (if contains ''BTC'' s1 \<and> contains ''BTC'' s2 then 95 / 100
      else if (contains ''BTC'' s1 \<or> contains ''ETH'' s1) \<and>
              (contains ''BTC'' s2 \<or> contains ''ETH'' s2) then 85 / 100
      else if endswith s1 ''USDT'' \<and> endswith s2 ''USDT'' then 70 / 100
      else 60 / 100)"
    by (rule pair_correlation_def)
next
  assume "contains ''BTC'' (pp_symbol p) \<and> contains ''BTC'' (pp_symbol q)"
  then have pc: "pair_correlation (pp_symbol p) (pp_symbol q) = 95 / 100"
    unfolding pair_correlation_def by simp
  show "max_correlation (assess_correlation_risk [p, q]) = 95 / 100"
    by (simp add: two_positions pc)
  show "risk_level (assess_correlation_risk [p, q]) = ''high''"
    by (simp add: two_positions pc)
qed

theorem correlation_risk_heuristic_witness:
  "contains ''BTC'' ''BTCUSDT'' \<and> contains ''BTC'' ''WBTCUSDT'' \<and>
   max_correlation (assess_correlation_risk
     [\<lparr> pp_symbol = ''BTCUSDT'', pp_quantity = 1, pp_entry_price = 100,
        pp_current_price = 100, pp_market_value = 100, pp_unrealized_pnl = 0,
        pp_unrealized_pnl_percent = 0, pp_weight = 1 / 2 \<rparr>,
      \<lparr> pp_symbol = ''WBTCUSDT'', pp_quantity = 1, pp_entry_price = 100,
        pp_current_price = 100, pp_market_value = 100, pp_unrealized_pnl = 0,
        pp_unrealized_pnl_percent = 0, pp_weight = 1 / 2 \<rparr>]) = 95 / 100 \<and>
   risk_level (assess_correlation_risk
     [\<lparr> pp_symbol = ''BTCUSDT'', pp_quantity = 1, pp_entry_price = 100,
        pp_current_price = 100, pp_market_value = 100, pp_unrealized_pnl = 0,
        pp_unrealized_pnl_percent = 0, pp_weight = 1 / 2 \<rparr>,
      \<lparr> pp_symbol = ''WBTCUSDT'', pp_quantity = 1, pp_entry_price = 100,
        pp_current_price = 100, pp_market_value = 100, pp_unrealized_pnl = 0,
        pp_unrealized_pnl_percent = 0, pp_weight = 1 / 2 \<rparr>]) = ''high'' \<and>
   assess_correlation_risk [] =
     \<lparr> avg_correlation = 0, max_correlation = 0, risk_level = ''low'' \<rparr>"
proof -
  let ?p = "\<lparr> pp_symbol = ''BTCUSDT'', pp_quantity = 1, pp_entry_price = 100,
        pp_current_price = 100, pp_market_value = 100, pp_unrealized_pnl = 0,
        pp_unrealized_pnl_percent = 0, pp_weight = 1 / 2 \<rparr>"
  let ?q = "\<lparr> pp_symbol = ''WBTCUSDT'', pp_quantity = 1, pp_entry_price = 100,
        pp_current_price = 100, pp_market_value = 100, pp_unrealized_pnl = 0,
        pp_unrealized_pnl_percent = 0, pp_weight = 1 / 2 \<rparr>"
  have a: "contains ''BTC'' ''BTCUSDT''" by simp
  have b: "contains ''BTC'' ''WBTCUSDT''" by simp
  have c: "length ([] :: PortfolioPosition list) < 2" by simp
  from correlation_risk_heuristic [of "[]" "''BTCUSDT''" "''WBTCUSDT''" ?p ?q] a b c
  show ?thesis by simp
qed

section \<open>Trading decision: the claim\<close>

text \<open>
  Claim C4.  With the AI server connected and a successful answer whose confidence is
  below the trader's minimum, \<open>make_trading_decision\<close> logs that the signal is below the
  threshold and answers \<open>should_trade: False\<close>; it does not run the rule-based fallback.
  The same holds, for every minimum of the trader, when the answer is the one the tool
  \<open>generate_trading_signal\<close> builds from a synthesis whose tolerance-adjusted confidence
  is below the threshold of the risk tolerance, because the tool then recommends hold.
  And the log line of the fallback appears only when the AI server is not connected or its
  answer is not a success.  The witness has a bullish technical signal, on which the
  fallback alone would buy.
\<close>

theorem ai_priority_short_circuit:
  "(''ai'' \<in> set conns \<and> ar_success r \<and> ar_signal r = Some sg \<and>
      (case sg_confidence sg of None \<Rightarrow> 0 | Some c \<Rightarrow> c) < mc \<longrightarrow>
        make_trading_decision conns (Returned r) mc rpt slp risk_call a =
          ([''Making trading decision...'', ''Signal confidence below threshold''],
           NoTrade ''Confidence below threshold'')) \<and>
   (''ai'' \<in> set conns \<and> an_success an \<and>
      snd (tolerance_adjustment tol (an_confidence an))
        < fst (tolerance_adjustment tol (an_confidence an)) \<longrightarrow>
        make_trading_decision conns (Returned (generate_trading_signal (Returned an) tol))
            mc rpt slp risk_call a =
          ([''Making trading decision...'', ''Signal confidence below threshold''],
           NoTrade ''Confidence below threshold'')) \<and>
   (''Using rule-based trading decision''
        \<in> set (fst (make_trading_decision conns call mc rpt slp risk_call a)) \<longrightarrow>
      ''ai'' \<notin> set conns \<or> (\<exists>r'. call = Returned r' \<and> \<not> ar_success r'))"
proof (intro conjI impI)
  assume "''ai'' \<in> set conns \<and> ar_success r \<and> ar_signal r = Some sg \<and>
      (case sg_confidence sg of None \<Rightarrow> 0 | Some c \<Rightarrow> c) < mc"
  then show "make_trading_decision conns (Returned r) mc rpt slp risk_call a =
          ([''Making trading decision...'', ''Signal confidence below threshold''],
           NoTrade ''Confidence below threshold'')"
    using ai_low_confidence [of conns r sg mc] by blast
next
  assume h: "''ai'' \<in> set conns \<and> an_success an \<and>
      snd (tolerance_adjustment tol (an_confidence an))
        < fst (tolerance_adjustment tol (an_confidence an))"
  with signal_below_tolerance [of an tol] obtain sg where
    "ar_success (generate_trading_signal (Returned an) tol)"
    "ar_signal (generate_trading_signal (Returned an) tol) = Some sg"
    "sg_action sg = Some ''hold''" by blast
  with h show "make_trading_decision conns (Returned (generate_trading_signal (Returned an) tol))
            mc rpt slp risk_call a =
          ([''Making trading decision...'', ''Signal confidence below threshold''],
           NoTrade ''Confidence below threshold'')"
    using ai_low_confidence [of conns "generate_trading_signal (Returned an) tol" sg mc]
    by simp
next
  assume "''Using rule-based trading decision''
        \<in> set (fst (make_trading_decision conns call mc rpt slp risk_call a))"
  then show "''ai'' \<notin> set conns \<or> (\<exists>r'. call = Returned r' \<and> \<not> ar_success r')"
    by (rule fallback_only_without_ai)
qed

theorem ai_priority_short_circuit_witness:
  "make_trading_decision [''ai'', ''risk'']
     (Returned \<lparr> ar_success = True,
                 ar_signal = Some \<lparr> sg_action = Some ''buy'', sg_confidence = Some (65 / 100),
                                    sg_original_confidence = Some (65 / 100),
                                    sg_target_price = None \<rparr>,
                 ar_reasoning = Some ''momentum'' \<rparr>)
     (7 / 10) (2 / 100) (5 / 100) (\<lambda>b r e s. Raised)
     \<lparr> ma_technical = Some \<lparr> tr_success = True, tr_overall_signal = Some ''bullish'' \<rparr>,
       ma_news = None, ma_social = None, ma_market_price = Some 50000 \<rparr>
     = ([''Making trading decision...'', ''Signal confidence below threshold''],
        NoTrade ''Confidence below threshold'') \<and>
   should_trade (snd (rule_based_decision (7 / 10)
     \<lparr> ma_technical = Some \<lparr> tr_success = True, tr_overall_signal = Some ''bullish'' \<rparr>,
       ma_news = None, ma_social = None, ma_market_price = Some 50000 \<rparr>)) \<and>
   make_trading_decision [''ai'', ''risk'']
     (Returned (generate_trading_signal
        (Returned \<lparr> an_success = True, an_confidence = 65 / 100,
                    an_recommendation = Some ''buy'', an_target_price = None,
                    an_reasoning = ''momentum'' \<rparr>) ''medium''))
     (5 / 10) (2 / 100) (5 / 100) (\<lambda>b r e s. Raised)
     \<lparr> ma_technical = Some \<lparr> tr_success = True, tr_overall_signal = Some ''bullish'' \<rparr>,
       ma_news = None, ma_social = None, ma_market_price = Some 50000 \<rparr>
     = ([''Making trading decision...'', ''Signal confidence below threshold''],
        NoTrade ''Confidence below threshold'') \<and>
   ''Using rule-based trading decision'' \<in> set (fst (make_trading_decision [''ai'', ''risk'']
     (Returned \<lparr> ar_success = False, ar_signal = None, ar_reasoning = None \<rparr>)
     (7 / 10) (2 / 100) (5 / 100) (\<lambda>b r e s. Raised)
     \<lparr> ma_technical = Some \<lparr> tr_success = True, tr_overall_signal = Some ''bullish'' \<rparr>,
       ma_news = None, ma_social = None, ma_market_price = Some 50000 \<rparr>))"
proof -
  let ?a = "\<lparr> ma_technical = Some \<lparr> tr_success = True, tr_overall_signal = Some ''bullish'' \<rparr>,
       ma_news = None, ma_social = None, ma_market_price = Some 50000 \<rparr>"
  let ?sg = "\<lparr> sg_action = Some ''buy'', sg_confidence = Some (65 / 100),
               sg_original_confidence = Some (65 / 100), sg_target_price = None \<rparr>"
  let ?r = "\<lparr> ar_success = True, ar_signal = Some ?sg, ar_reasoning = Some ''momentum'' \<rparr>"
  let ?an = "\<lparr> an_success = True, an_confidence = 65 / 100,
                an_recommendation = Some ''buy'', an_target_price = None,
                an_reasoning = ''momentum'' \<rparr>"
  let ?f = "\<lparr> ar_success = False, ar_signal = None, ar_reasoning = None \<rparr>"
  have rb: "should_trade (snd (rule_based_decision (7 / 10) ?a))"
    unfolding rule_based_decision_def rule_scores_def Let_def TECHNICAL_SIGNAL_WEIGHT_def
      MAX_RULE_CONFIDENCE_def CONFIDENCE_BOOST_def RULE_BASED_BUY_THRESHOLD_def
    by simp
  have fb: "''Using rule-based trading decision'' \<in> set (fst (make_trading_decision
      [''ai'', ''risk''] (Returned ?f) (7 / 10) (2 / 100) (5 / 100) (\<lambda>b r e s. Raised) ?a))"
    unfolding make_trading_decision_def Let_def by (simp add: rule_based_log)
  have tol: "snd (tolerance_adjustment ''medium'' (65 / 100))
               < fst (tolerance_adjustment ''medium'' (65 / 100))"
    unfolding tolerance_adjustment_def by simp
  from ai_priority_short_circuit [of "[''ai'', ''risk'']" ?r ?sg "7 / 10" "2 / 100" "5 / 100"
      "\<lambda>b r e s. Raised" ?a ?an "''medium''" "Returned ?f"]
  have one: "make_trading_decision [''ai'', ''risk''] (Returned ?r) (7 / 10) (2 / 100) (5 / 100)
      (\<lambda>b r e s. Raised) ?a
     = ([''Making trading decision...'', ''Signal confidence below threshold''],
        NoTrade ''Confidence below threshold'')"
    by simp
  from ai_priority_short_circuit [of "[''ai'', ''risk'']" ?r ?sg "5 / 10" "2 / 100" "5 / 100"
      "\<lambda>b r e s. Raised" ?a ?an "''medium''" "Returned ?f"] tol
  have two: "make_trading_decision [''ai'', ''risk'']
      (Returned (generate_trading_signal (Returned ?an) ''medium''))
      (5 / 10) (2 / 100) (5 / 100) (\<lambda>b r e s. Raised) ?a
     = ([''Making trading decision...'', ''Signal confidence below threshold''],
        NoTrade ''Confidence below threshold'')"
    by simp
  from one rb two fb show ?thesis by blast
qed

end
